theory Spec2Isabelle
  imports Complex_Main "HOL-Library.AList"
begin

section \<open>JavaScript values\<close>

text \<open>
  The values that flow through the workflow engine of \<^verbatim>\<open>src/App.js\<close>: the node results
  stored in the execution context, the payloads returned by the integration services and
  the parameter objects handed to them.

  \<^item> A string is a list of 8-bit characters; code units above \<^verbatim>\<open>0xFF\<close> are not
    represented.
  \<^item> \<open>JNum m e\<close> is the decimal number \<open>m / 10^e\<close> (\<open>149.99\<close> is \<open>JNum 14999 2\<close>), written
    with \<open>e = 0\<close> or with an \<open>m\<close> that does not end in the digit zero. The engine never
    computes with a stored number, it only prints it.
  \<^item> \<open>JObj\<close> holds the own properties of an object in insertion order; a property that
    is not an own property is read through the host runtime (see \<open>runtime\<close>).
  \<^item> \<open>JFun src\<close> is a function object whose source text (the result of \<^verbatim>\<open>String(f)\<close>)
    is \<open>src\<close>. Functions reach the engine only through inherited properties.
\<close>

datatype jsval =
    JUndefined
  | JNull
  | JBool bool
  | JNum int nat
  | JStr string
  | JArr "jsval list"
  | JObj "(string \<times> jsval) list"
  | JFun string

text \<open>
  What the engine uses of the host and does not define itself. \<open>inherited v k\<close> is the
  result of reading the property \<open>k\<close> of \<open>v\<close> when \<open>v\<close> has no own property \<open>k\<close>: the
  prototype chain of the ECMAScript runtime (for a plain object, \<^verbatim>\<open>Object.prototype\<close>).
  \<open>None\<close> means that the read throws, \<open>Some JUndefined\<close> that no such property exists.
  \<open>jsonParse\<close> is \<^verbatim>\<open>JSON.parse\<close> (\<open>None\<close>: it throws a SyntaxError), \<open>objToString\<close> is
  the string conversion of an object, array or function inside a template literal
  (\<open>None\<close>: it throws).
\<close>

record runtime =
  inherited :: "jsval \<Rightarrow> string \<Rightarrow> jsval option"
  jsonParse :: "string \<Rightarrow> jsval option"
  objToString :: "jsval \<Rightarrow> string option"

subsection \<open>Numbers and strings\<close>

definition digitChar :: "nat \<Rightarrow> char" where
  "digitChar d = char_of (48 + d)"

fun showNat :: "nat \<Rightarrow> string" where
  "showNat n = (if n < 10 then [digitChar n] else showNat (n div 10) @ [digitChar (n mod 10)])"

declare showNat.simps [simp del]

definition showInt :: "int \<Rightarrow> string" where
  "showInt i = (if i < 0 then CHR ''-'' # showNat (nat (- i)) else showNat (nat i))"

text \<open>
  \<^verbatim>\<open>Number::toString\<close> on the decimal \<open>m / 10^e\<close>, in the plain notation that JavaScript
  uses between \<open>1e-6\<close> and \<open>1e21\<close>: the integer part, and after a point the \<open>e\<close> fraction
  digits.
\<close>

definition numberToString :: "int \<Rightarrow> nat \<Rightarrow> string" where
  "numberToString m e =
     (if e = 0 then showInt m
      else
        let a = nat \<bar>m\<bar>;
            frac = showNat (a mod 10 ^ e)
        in (if m < 0 then ''-'' else '''') @ showNat (a div 10 ^ e) @ ''.'' @
           replicate (e - length frac) (CHR ''0'') @ frac)"

definition truthy :: "jsval \<Rightarrow> bool" where
  "truthy v =
     (case v of
        JUndefined \<Rightarrow> False
      | JNull \<Rightarrow> False
      | JBool b \<Rightarrow> b
      | JNum m e \<Rightarrow> m \<noteq> 0
      | JStr s \<Rightarrow> s \<noteq> []
      | _ \<Rightarrow> True)"

text \<open>\<^verbatim>\<open>typeof v === 'object'\<close>: objects, arrays and \<^verbatim>\<open>null\<close>.\<close>

definition typeofObject :: "jsval \<Rightarrow> bool" where
  "typeofObject v = (case v of JNull \<Rightarrow> True | JArr xs \<Rightarrow> True | JObj ps \<Rightarrow> True | _ \<Rightarrow> False)"

subsection \<open>Property reads\<close>

text \<open>
  \<^verbatim>\<open>v[k]\<close>. An own property wins; an array and a string have their \<^verbatim>\<open>length\<close> and their
  indices; everything else is inherited. Reading a property of \<^verbatim>\<open>undefined\<close> or
  \<^verbatim>\<open>null\<close> throws a TypeError (\<open>None\<close>).
\<close>

definition indexKeys :: "nat \<Rightarrow> string list" where
  "indexKeys n = map showNat [0..<n]"

definition getProp :: "runtime \<Rightarrow> jsval \<Rightarrow> string \<Rightarrow> jsval option" where
  "getProp rt v k =
     (case v of
        JUndefined \<Rightarrow> None
      | JNull \<Rightarrow> None
      | JObj ps \<Rightarrow> (case map_of ps k of Some x \<Rightarrow> Some x | None \<Rightarrow> inherited rt v k)
      | JArr xs \<Rightarrow>
          (if k = ''length'' then Some (JNum (int (length xs)) 0)
           else case map_of (zip (indexKeys (length xs)) xs) k of
                  Some x \<Rightarrow> Some x
                | None \<Rightarrow> inherited rt v k)
      | JStr s \<Rightarrow>
          (if k = ''length'' then Some (JNum (int (length s)) 0)
           else case map_of (zip (indexKeys (length s)) s) k of
                  Some c \<Rightarrow> Some (JStr [c])
                | None \<Rightarrow> inherited rt v k)
      | _ \<Rightarrow> inherited rt v k)"

subsection \<open>JSON.stringify and String\<close>

definition hexDigit :: "nat \<Rightarrow> char" where
  "hexDigit d = (if d < 10 then char_of (48 + d) else char_of (87 + d))"

text \<open>The escapes of \<^verbatim>\<open>QuoteJSONString\<close>.\<close>

definition jsonEscape :: "char \<Rightarrow> string" where
  "jsonEscape c =
     (if c = CHR ''\"'' then [CHR 0x5C, CHR ''\"'']
      else if c = CHR 0x5C then [CHR 0x5C, CHR 0x5C]
      else if c = CHR 0x08 then [CHR 0x5C, CHR ''b'']
      else if c = CHR 0x0C then [CHR 0x5C, CHR ''f'']
      else if c = CHR 0x0A then [CHR 0x5C, CHR ''n'']
      else if c = CHR 0x0D then [CHR 0x5C, CHR ''r'']
      else if c = CHR 0x09 then [CHR 0x5C, CHR ''t'']
      else if of_char c < (32::nat)
        then [CHR 0x5C, CHR ''u'', CHR ''0'', CHR ''0'',
              hexDigit (of_char c div 16), hexDigit (of_char c mod 16)]
      else [c])"

definition jsonQuote :: "string \<Rightarrow> string" where
  "jsonQuote s = CHR ''\"'' # concat (map jsonEscape s) @ [CHR ''\"'']"

fun joinWith :: "string \<Rightarrow> string list \<Rightarrow> string" where
  "joinWith sep [] = []"
| "joinWith sep [x] = x"
| "joinWith sep (x # y # ys) = x @ sep @ joinWith sep (y # ys)"

text \<open>
  \<^verbatim>\<open>JSON.stringify(v)\<close> without indentation. \<open>None\<close> is the result \<^verbatim>\<open>undefined\<close> (a
  function or \<^verbatim>\<open>undefined\<close>): such a property is left out of an object, and such an
  element of an array is written \<^verbatim>\<open>null\<close>.
\<close>

fun jsonStringify :: "jsval \<Rightarrow> string option"
  and jsonElements :: "jsval list \<Rightarrow> string list"
  and jsonMembers :: "(string \<times> jsval) list \<Rightarrow> string list" where
  "jsonStringify JUndefined = None"
| "jsonStringify JNull = Some ''null''"
| "jsonStringify (JBool b) = Some (if b then ''true'' else ''false'')"
| "jsonStringify (JNum m e) = Some (numberToString m e)"
| "jsonStringify (JStr s) = Some (jsonQuote s)"
| "jsonStringify (JArr xs) = Some (''['' @ joinWith '','' (jsonElements xs) @ '']'')"
| "jsonStringify (JObj ps) = Some (''{'' @ joinWith '','' (jsonMembers ps) @ ''}'')"
| "jsonStringify (JFun src) = None"
| "jsonElements [] = []"
| "jsonElements (x # xs) =
     (case jsonStringify x of None \<Rightarrow> ''null'' | Some s \<Rightarrow> s) # jsonElements xs"
| "jsonMembers [] = []"
| "jsonMembers (p # ps) =
     (case jsonStringify (snd p) of
        None \<Rightarrow> jsonMembers ps
      | Some s \<Rightarrow> (jsonQuote (fst p) @ '':'' @ s) # jsonMembers ps)"

text \<open>
  \<^verbatim>\<open>String(v)\<close> for the values whose \<^verbatim>\<open>typeof\<close> is not \<^verbatim>\<open>'object'\<close>; for the others
  the resolver calls \<^verbatim>\<open>JSON.stringify\<close> instead.
\<close>

definition primToString :: "jsval \<Rightarrow> string" where
  "primToString v =
     (case v of
        JUndefined \<Rightarrow> ''undefined''
      | JNull \<Rightarrow> ''null''
      | JBool b \<Rightarrow> (if b then ''true'' else ''false'')
      | JNum m e \<Rightarrow> numberToString m e
      | JStr s \<Rightarrow> s
      | JFun src \<Rightarrow> src
      | _ \<Rightarrow> [])"

section \<open>Variable resolver\<close>

text \<open>
  \<^verbatim>\<open>resolveVariables\<close> of \<^verbatim>\<open>src/App.js\<close>:
  \<^verbatim>\<open>template.replace(/{{(.*?)}}/g, (match, path) => ...)\<close>.
\<close>

text \<open>\<^verbatim>\<open>path.split('.')\<close>: never empty; the empty string gives one empty part.\<close>

fun splitOn :: "char \<Rightarrow> string \<Rightarrow> string list" where
  "splitOn c [] = [[]]"
| "splitOn c (x # xs) =
     (if x = c then [] # splitOn c xs
      else case splitOn c xs of p # ps \<Rightarrow> (x # p) # ps | [] \<Rightarrow> [[x]])"

text \<open>
  The dot of the regular expression matches every character but a line terminator; of
  the four line terminators of ECMAScript, line feed and carriage return are 8-bit.
\<close>

definition lineTerminator :: "char \<Rightarrow> bool" where
  "lineTerminator c = (c = CHR 0x0A \<or> c = CHR 0x0D)"

text \<open>
  After an opening \<^verbatim>\<open>{{\<close>, the lazy group \<^verbatim>\<open>(.*?)\<close> followed by \<^verbatim>\<open>}}\<close>: the shortest run
  of characters, none a line terminator, up to the first \<^verbatim>\<open>}}\<close>. The result is the
  captured path and the text after the closing braces; \<open>None\<close> when the expression does
  not match here.
\<close>

fun findClose :: "string \<Rightarrow> (string \<times> string) option" where
  "findClose [] = None"
| "findClose (c # cs) =
     (if c = CHR ''}'' \<and> cs \<noteq> [] \<and> hd cs = CHR ''}'' then Some ([], tl cs)
      else if lineTerminator c then None
      else case findClose cs of None \<Rightarrow> None | Some (p, r) \<Rightarrow> Some (c # p, r))"

lemma findClose_length: "findClose s = Some (p, r) \<Longrightarrow> length r < length s"
proof (induction s arbitrary: p)
  case Nil
  then show ?case by simp
next
  case (Cons c cs)
  then show ?case
    by (cases cs) (auto split: if_splits option.splits)
qed

text \<open>
  The global replace: scanning from the left, each match of \<^verbatim>\<open>{{(.*?)}}\<close> is replaced by
  the callback's result for its captured path and the scan goes on after the match; a
  character where the expression does not match is copied.
\<close>

function replacePlaceholders :: "(string \<Rightarrow> string) \<Rightarrow> string \<Rightarrow> string" where
  "replacePlaceholders f [] = []"
| "replacePlaceholders f (c # cs) =
     (case (if c = CHR ''{'' \<and> cs \<noteq> [] \<and> hd cs = CHR ''{'' then findClose (tl cs) else None) of
        Some (path, rest) \<Rightarrow> f path @ replacePlaceholders f rest
      | None \<Rightarrow> c # replacePlaceholders f cs)"
  by pat_completeness auto
termination
proof (relation "measure (\<lambda>(f, s). length s)")
  show "wf (measure (\<lambda>(f, s). length s))" by simp
next
  fix f :: "string \<Rightarrow> string" and c :: char and cs :: string and x2 path rest
  assume "(if c = CHR ''{'' \<and> cs \<noteq> [] \<and> hd cs = CHR ''{'' then findClose (tl cs) else None) = Some x2"
    and "(path, rest) = x2"
  then have "findClose (tl cs) = Some (path, rest)" and "cs \<noteq> []"
    by (auto split: if_splits)
  then have "length rest < length (tl cs)"
    using findClose_length [of "tl cs" path rest] by simp
  then show "((f, rest), (f, c # cs)) \<in> measure (\<lambda>(f, s). length s)"
    by simp
next
  fix f :: "string \<Rightarrow> string" and c :: char and cs :: string
  show "((f, cs), (f, c # cs)) \<in> measure (\<lambda>(f, s). length s)"
    by simp
qed

declare replacePlaceholders.simps [simp del]

text \<open>The text of the match whose captured group is \<open>path\<close>.\<close>

definition placeholder :: "string \<Rightarrow> string" where
  "placeholder path = ''{{'' @ path @ ''}}''"

text \<open>
  The callback. The context is the own-property list of the context object. A read that
  throws is caught and gives the match back, as does a missing or falsy node entry and
  an \<^verbatim>\<open>undefined\<close> field.
\<close>

type_synonym execution_context = "(string \<times> jsval) list"

definition substitute :: "runtime \<Rightarrow> execution_context \<Rightarrow> string \<Rightarrow> string" where
  "substitute rt ctx path =
     (case splitOn (CHR ''.'') path of
        nodeId # field # _ \<Rightarrow>
          (if nodeId = [] \<or> field = [] then placeholder path
           else case getProp rt (JObj ctx) nodeId of
             None \<Rightarrow> placeholder path
           | Some entry \<Rightarrow>
               (if \<not> truthy entry then placeholder path
                else case getProp rt entry field of
                  None \<Rightarrow> placeholder path
                | Some v \<Rightarrow>
                    (if v = JUndefined then placeholder path
                     else if typeofObject v
                       then (case jsonStringify v of Some s \<Rightarrow> s | None \<Rightarrow> ''undefined'')
                     else primToString v)))
      | _ \<Rightarrow> placeholder path)"

definition resolveVariables :: "runtime \<Rightarrow> jsval \<Rightarrow> execution_context \<Rightarrow> jsval" where
  "resolveVariables rt template ctx =
     (case template of
        JStr t \<Rightarrow> (if t = [] then template else JStr (replacePlaceholders (substitute rt ctx) t))
      | _ \<Rightarrow> template)"

text \<open>
  Two runtimes for concrete evaluation. \<open>plainRuntime\<close> has no inherited property at all.
  \<open>protoRuntime\<close> holds the two entries of the standard runtime that the examples read:
  every object inherits \<^verbatim>\<open>constructor\<close>, the function \<^verbatim>\<open>Object\<close>, whose \<^verbatim>\<open>name\<close> is
  \<^verbatim>\<open>"Object"\<close>.
\<close>

definition plainRuntime :: runtime where
  "plainRuntime =
     \<lparr>inherited = (\<lambda>v k. Some JUndefined), jsonParse = (\<lambda>s. None), objToString = (\<lambda>v. None)\<rparr>"

definition objectConstructor :: jsval where
  "objectConstructor = JFun ''function Object() { [native code] }''"

definition protoRuntime :: runtime where
  "protoRuntime =
     \<lparr>inherited = (\<lambda>v k.
        case v of
          JObj ps \<Rightarrow> (if k = ''constructor'' then Some objectConstructor else Some JUndefined)
        | JFun src \<Rightarrow>
            (if v = objectConstructor \<and> k = ''name'' then Some (JStr ''Object'')
             else Some JUndefined)
        | _ \<Rightarrow> Some JUndefined),
      jsonParse = (\<lambda>s. None), objToString = (\<lambda>v. None)\<rparr>"

section \<open>Workflow graph\<close>

text \<open>
  A node of the editor: \<^verbatim>\<open>{id, type, data: {label, config}}\<close>. The configuration fields
  that the engine reads are written by the text inputs of the configuration panel, so a
  field is a string, or absent (\<^verbatim>\<open>undefined\<close>). Node ids are the decimal numerals that
  the editor generates.
\<close>

record node =
  nid :: string
  ntype :: string
  label :: string
  config :: "string \<rightharpoonup> string"

record edge =
  source :: string
  target :: string

record workflow =
  nodes :: "node list"
  edges :: "edge list"

text \<open>\<^verbatim>\<open>node.data.config.k\<close> as a value, and its truthiness.\<close>

definition cfg :: "node \<Rightarrow> string \<Rightarrow> jsval" where
  "cfg n k = (case config n k of None \<Rightarrow> JUndefined | Some s \<Rightarrow> JStr s)"

definition cfgSet :: "node \<Rightarrow> string \<Rightarrow> bool" where
  "cfgSet n k = (case config n k of None \<Rightarrow> False | Some s \<Rightarrow> s \<noteq> [])"

text \<open>\<^verbatim>\<open>node.data.config.k || d\<close>.\<close>

definition cfgOr :: "node \<Rightarrow> string \<Rightarrow> string \<Rightarrow> string" where
  "cfgOr n k d = (case config n k of None \<Rightarrow> d | Some s \<Rightarrow> (if s = [] then d else s))"

definition validateNode :: "node \<Rightarrow> string option" where
  "validateNode n =
     (if ntype n = ''trigger'' \<and> \<not> cfgSet n ''event'' \<and> \<not> cfgSet n ''schedule''
        then Some ''Trigger requires event or schedule''
      else if ntype n = ''action'' \<and> \<not> cfgSet n ''api'' \<and> \<not> cfgSet n ''actionType''
        then Some ''Action requires API or action type''
      else if ntype n = ''filter'' \<and> (\<not> cfgSet n ''field'' \<or> \<not> cfgSet n ''operator'')
        then Some ''Filter requires field and operator''
      else if ntype n = ''dataSource'' \<and> \<not> cfgSet n ''sourceType''
        then Some ''Data Source requires a source type''
      else if ntype n = ''dataModifier'' \<and> (\<not> cfgSet n ''input'' \<or> \<not> cfgSet n ''operationType'')
        then Some ''Data Modifier requires input and operation type''
      else if ntype n = ''multiBranch'' \<and> \<not> cfgSet n ''branchType''
        then Some ''Multi-path Branch requires a branch type''
      else None)"

section \<open>Integration router\<close>

text \<open>
  \<^verbatim>\<open>IntegrationManager.execute\<close>. The five services do input and output, so a service is
  given by what the reads of its members return: a method, or a value that is not a
  function (\<^verbatim>\<open>undefined\<close> for a member that does not exist). A method gets the index of
  the call, since two calls with the same parameters need not return the same result, and
  the parameter object; it returns a result or throws.

  The errors are plain \<^verbatim>\<open>Error\<close> objects; the constructors name what throws: the two
  \<^verbatim>\<open>throw\<close> statements of \<^verbatim>\<open>execute\<close>, the runtime (a TypeError of a property read, a
  SyntaxError of \<^verbatim>\<open>JSON.parse\<close>), or a service, with its message.
\<close>

datatype js_error =
    ServiceNotFound string
  | OperationNotFound string string
  | TypeError
  | SyntaxError
  | Thrown string

datatype member =
    Method "nat \<Rightarrow> jsval \<Rightarrow> js_error + jsval"
  | Value jsval

type_synonym service = "string \<Rightarrow> member"

text \<open>
  The own properties of \<^verbatim>\<open>this.services\<close>, and what a plain object inherits under any
  other key: \<open>protoService k\<close> is the member table of the inherited value, \<open>None\<close> when
  nothing truthy is inherited under \<open>k\<close>.
\<close>

record integration_manager =
  api :: service
  email :: service
  database :: service
  fileStorage :: service
  webhook :: service
  protoService :: "string \<Rightarrow> service option"

definition services :: "integration_manager \<Rightarrow> string \<Rightarrow> service option" where
  "services mgr serviceType =
     (if serviceType = ''api'' then Some (api mgr)
      else if serviceType = ''email'' then Some (email mgr)
      else if serviceType = ''database'' then Some (database mgr)
      else if serviceType = ''fileStorage'' then Some (fileStorage mgr)
      else if serviceType = ''webhook'' then Some (webhook mgr)
      else protoService mgr serviceType)"

definition execute ::
  "integration_manager \<Rightarrow> nat \<Rightarrow> string \<Rightarrow> string \<Rightarrow> jsval \<Rightarrow> js_error + jsval" where
  "execute mgr call serviceType operation params =
     (case services mgr serviceType of
        None \<Rightarrow> Inl (ServiceNotFound serviceType)
      | Some svc \<Rightarrow>
          (case svc operation of
             Value v \<Rightarrow> Inl (OperationNotFound operation serviceType)
           | Method f \<Rightarrow> f call params))"

section \<open>Node executor\<close>

text \<open>String conversion in a template literal, and the reads and conversions that throw.\<close>

definition toStr :: "runtime \<Rightarrow> jsval \<Rightarrow> string option" where
  "toStr rt v =
     (case v of
        JArr xs \<Rightarrow> objToString rt v
      | JObj ps \<Rightarrow> objToString rt v
      | _ \<Rightarrow> Some (primToString v))"

definition bindE :: "'e + 'a \<Rightarrow> ('a \<Rightarrow> 'e + 'b) \<Rightarrow> 'e + 'b" where
  "bindE m f = (case m of Inl e \<Rightarrow> Inl e | Inr x \<Rightarrow> f x)"

definition readProp :: "runtime \<Rightarrow> jsval \<Rightarrow> string \<Rightarrow> js_error + jsval" where
  "readProp rt v k = (case getProp rt v k of None \<Rightarrow> Inl TypeError | Some x \<Rightarrow> Inr x)"

definition strOf :: "runtime \<Rightarrow> jsval \<Rightarrow> js_error + string" where
  "strOf rt v = (case toStr rt v of None \<Rightarrow> Inl TypeError | Some s \<Rightarrow> Inr s)"

text \<open>The own enumerable properties that an object spread \<^verbatim>\<open>{...v}\<close> copies.\<close>

definition spread :: "jsval \<Rightarrow> (string \<times> jsval) list" where
  "spread v =
     (case v of
        JObj ps \<Rightarrow> ps
      | JArr xs \<Rightarrow> zip (indexKeys (length xs)) xs
      | JStr s \<Rightarrow> zip (indexKeys (length s)) (map (\<lambda>c. JStr [c]) s)
      | _ \<Rightarrow> [])"

text \<open>\<^verbatim>\<open>{ status, result, message }\<close>, or \<^verbatim>\<open>{ status: 'error', error }\<close>.\<close>

record exec_result =
  status :: string
  result :: jsval
  message :: jsval
  error :: "js_error option"

definition success :: "jsval \<Rightarrow> string \<Rightarrow> exec_result" where
  "success r m = \<lparr>status = ''success'', result = r, message = JStr m, error = None\<rparr>"

definition transformItem :: "jsval \<Rightarrow> jsval" where
  "transformItem item = JObj (AList.update ''transformed'' (JBool True) (spread item))"

text \<open>\<^verbatim>\<open>inputData.filter(item => item.status === 'active')\<close>; a read of a \<^verbatim>\<open>null\<close> item throws.\<close>

fun filterActive :: "runtime \<Rightarrow> jsval list \<Rightarrow> js_error + jsval list" where
  "filterActive rt [] = Inr []"
| "filterActive rt (item # items) =
     bindE (readProp rt item ''status'') (\<lambda>st.
     bindE (filterActive rt items) (\<lambda>kept.
       Inr (if st = JStr ''active'' then item # kept else kept)))"

text \<open>
  The body of the \<^verbatim>\<open>try\<close> block of \<^verbatim>\<open>executeNode\<close>, by node type. \<open>call\<close> is the index of
  the call to the integration router.
\<close>

definition executeAction ::
  "runtime \<Rightarrow> integration_manager \<Rightarrow> nat \<Rightarrow> node \<Rightarrow> execution_context \<Rightarrow> js_error + exec_result" where
  "executeAction rt mgr call n ctx =
     (if config n ''actionType'' = Some ''email'' then
        let to = resolveVariables rt (cfg n ''to'') ctx;
            subject = resolveVariables rt (cfg n ''subject'') ctx;
            body = resolveVariables rt (JStr (cfgOr n ''fields'' [])) ctx
        in bindE (execute mgr call ''email'' ''sendEmail''
                   (JObj [(''provider'', JStr ''mock''), (''to'', to), (''subject'', subject),
                          (''body'', body), (''template'', cfg n ''template''),
                          (''templateData'', JObj ctx)])) (\<lambda>emailResult.
           Inr (success emailResult (''Email sent to '' @ primToString to)))
      else if config n ''actionType'' = Some ''api_call'' then
        let url = resolveVariables rt (cfg n ''url'') ctx;
            method = cfgOr n ''method'' ''GET''
        in bindE (if cfgSet n ''headers''
                  then (case jsonParse rt (primToString (resolveVariables rt (cfg n ''headers'') ctx)) of
                          None \<Rightarrow> Inl SyntaxError
                        | Some h \<Rightarrow> Inr h)
                  else Inr (JObj [])) (\<lambda>headers.
           bindE (execute mgr call ''api'' ''makeRequest''
                   (JObj [(''url'', url), (''method'', JStr method), (''headers'', headers),
                          (''validateStatus'', JBool True)])) (\<lambda>apiResult.
           Inr (success apiResult (''API call to '' @ primToString url @ '' completed''))))
      else if config n ''actionType'' = Some ''database'' then
        let query = resolveVariables rt (cfg n ''query'') ctx
        in bindE (execute mgr call ''database'' ''executeQuery''
                   (JObj [(''type'', JStr ''mysql''),
                          (''connection'', JStr ''mock://localhost:3306/testdb''),
                          (''query'', query)])) (\<lambda>dbResult.
           Inr (success dbResult ''Database query executed''))
      else Inr \<lparr>status = ''success'', result = JUndefined,
                message = JStr (''Action '' @ label n @ '' executed''), error = None\<rparr>)"

definition executeDataSource ::
  "runtime \<Rightarrow> integration_manager \<Rightarrow> nat \<Rightarrow> node \<Rightarrow> execution_context \<Rightarrow> js_error + exec_result" where
  "executeDataSource rt mgr call n ctx =
     (let query = resolveVariables rt (JStr (cfgOr n ''query'' [])) ctx;
          outputVar = cfgOr n ''outputVar'' ''data''
      in if config n ''sourceType'' = Some ''database'' then
           bindE (execute mgr call ''database'' ''executeQuery''
                   (JObj [(''type'', JStr ''mysql''),
                          (''connection'', JStr ''mock://localhost:3306/testdb''),
                          (''query'', query)])) (\<lambda>dbResult.
           bindE (readProp rt dbResult ''rows'') (\<lambda>rows.
           bindE (readProp rt rows ''length'') (\<lambda>len.
           bindE (strOf rt len) (\<lambda>count.
           Inr (success (JObj [(outputVar, rows)])
                  (''Retrieved '' @ count @ '' records from database''))))))
         else if config n ''sourceType'' = Some ''api'' then
           let apiUrl = resolveVariables rt (JStr (cfgOr n ''apiUrl'' [])) ctx
           in bindE (execute mgr call ''api'' ''makeRequest''
                      (JObj [(''url'', if truthy apiUrl then apiUrl
                                       else JStr ''https://jsonplaceholder.typicode.com/posts/1''),
                             (''method'', JStr ''GET'')])) (\<lambda>apiResult.
              bindE (readProp rt apiResult ''data'') (\<lambda>d.
              Inr (success (JObj [(outputVar, d)]) ''Retrieved data from API'')))
         else Inr (success (JObj [(outputVar, JObj [(''message'', JStr ''Mock data source result'')])])
                     (''Data source '' @ label n @ '' executed'')))"

definition executeDataModifier ::
  "runtime \<Rightarrow> node \<Rightarrow> execution_context \<Rightarrow> js_error + exec_result" where
  "executeDataModifier rt n ctx =
     (let input = resolveVariables rt (JStr (cfgOr n ''input'' [])) ctx;
          operation = cfg n ''operationType'';
          output = cfgOr n ''output'' ''result'';
          inputData = (case jsonParse rt (primToString input) of None \<Rightarrow> input | Some d \<Rightarrow> d)
      in bindE (if operation = JStr ''transform'' then
                  Inr (case inputData of
                         JArr items \<Rightarrow> JArr (map transformItem items)
                       | _ \<Rightarrow> transformItem inputData)
                else if operation = JStr ''filter'' then
                  (case inputData of
                     JArr items \<Rightarrow> bindE (filterActive rt items) (\<lambda>kept. Inr (JArr kept))
                   | _ \<Rightarrow> Inr inputData)
                else Inr JUndefined) (\<lambda>r.
         Inr (success (JObj [(output, if truthy r then r else inputData)])
                (''Applied '' @ primToString operation @ '' operation to data''))))"

definition executeNode ::
  "runtime \<Rightarrow> integration_manager \<Rightarrow> nat \<Rightarrow> node \<Rightarrow> execution_context \<Rightarrow> exec_result" where
  "executeNode rt mgr call n ctx =
     (case (if ntype n = ''trigger'' then
              Inr \<lparr>status = ''success'', result = JUndefined,
                   message = JStr (''Trigger '' @ label n @ '' activated''), error = None\<rparr>
            else if ntype n = ''action'' then executeAction rt mgr call n ctx
            else if ntype n = ''dataSource'' then executeDataSource rt mgr call n ctx
            else if ntype n = ''dataModifier'' then executeDataModifier rt n ctx
            else Inr \<lparr>status = ''success'', result = JUndefined,
                      message = JStr (''Node '' @ label n @ '' executed''), error = None\<rparr>) of
        Inr r \<Rightarrow> r
      | Inl e \<Rightarrow> \<lparr>status = ''error'', result = JUndefined, message = JUndefined, error = Some e\<rparr>)"

section \<open>Filter conditions\<close>

text \<open>
  The result of \<^verbatim>\<open>parseFloat\<close>. A finite result is the exact value of the decimal
  literal that was read; its rounding to a binary64 float is not modelled.
\<close>

datatype jsnum = NaN | NegInf | Fin rat | PosInf

definition whiteSpace :: "char \<Rightarrow> bool" where
  "whiteSpace c = (c \<in> set [CHR 0x09, CHR 0x0A, CHR 0x0B, CHR 0x0C, CHR 0x0D, CHR 0x20, CHR 0xA0])"

definition isDigit :: "char \<Rightarrow> bool" where
  "isDigit c = (48 \<le> (of_char c :: nat) \<and> (of_char c :: nat) \<le> 57)"

definition digitsValue :: "string \<Rightarrow> nat" where
  "digitsValue ds = foldl (\<lambda>a c. 10 * a + (of_char c - 48)) 0 ds"

text \<open>The value of an exponent part at the head of \<open>s\<close>; \<open>0\<close> when there is none.\<close>

definition parseExponent :: "string \<Rightarrow> int" where
  "parseExponent s =
     (case s of
        [] \<Rightarrow> 0
      | c # r \<Rightarrow>
          (if c = CHR ''e'' \<or> c = CHR ''E'' then
             (case r of
                [] \<Rightarrow> 0
              | d # r' \<Rightarrow>
                  (if d = CHR ''-'' then
                     (if takeWhile isDigit r' = [] then 0
                      else - int (digitsValue (takeWhile isDigit r')))
                   else if d = CHR ''+'' then int (digitsValue (takeWhile isDigit r'))
                   else int (digitsValue (takeWhile isDigit r))))
           else 0))"

text \<open>
  The longest prefix that is a \<^verbatim>\<open>StrDecimalLiteral\<close> without its sign: \<^verbatim>\<open>Infinity\<close>, or
  digits with an optional fraction and an optional exponent.
\<close>

definition parseDecimal :: "string \<Rightarrow> jsnum" where
  "parseDecimal s =
     (if take 8 s = ''Infinity'' then PosInf
      else
        let ip = takeWhile isDigit s;
            r1 = dropWhile isDigit s;
            fp = (case r1 of [] \<Rightarrow> [] | c # r \<Rightarrow> if c = CHR ''.'' then takeWhile isDigit r else []);
            r2 = (case r1 of [] \<Rightarrow> [] | c # r \<Rightarrow> if c = CHR ''.'' then dropWhile isDigit r else r1)
        in if ip = [] \<and> fp = [] then NaN
           else Fin (of_nat (digitsValue (ip @ fp)) * 10 powi (parseExponent r2 - int (length fp))))"

definition negate :: "jsnum \<Rightarrow> jsnum" where
  "negate x = (case x of NaN \<Rightarrow> NaN | NegInf \<Rightarrow> PosInf | PosInf \<Rightarrow> NegInf | Fin r \<Rightarrow> Fin (- r))"

definition parseFloat :: "string \<Rightarrow> jsnum" where
  "parseFloat s =
     (case dropWhile whiteSpace s of
        [] \<Rightarrow> NaN
      | c # r \<Rightarrow>
          (if c = CHR ''-'' then negate (parseDecimal r)
           else if c = CHR ''+'' then parseDecimal r
           else parseDecimal (c # r)))"

text \<open>\<^verbatim>\<open>x < y\<close> on numbers: false as soon as one side is \<^verbatim>\<open>NaN\<close>.\<close>

definition numLess :: "jsnum \<Rightarrow> jsnum \<Rightarrow> bool" where
  "numLess x y =
     (case x of
        NaN \<Rightarrow> False
      | NegInf \<Rightarrow> (case y of NaN \<Rightarrow> False | NegInf \<Rightarrow> False | _ \<Rightarrow> True)
      | Fin a \<Rightarrow> (case y of PosInf \<Rightarrow> True | Fin b \<Rightarrow> a < b | _ \<Rightarrow> False)
      | PosInf \<Rightarrow> False)"

text \<open>
  \<^verbatim>\<open>field == value\<close> on the operands of a filter: \<open>field\<close> is a string, \<open>value\<close> a string
  or \<^verbatim>\<open>undefined\<close>.
\<close>

definition looseEq :: "jsval \<Rightarrow> jsval \<Rightarrow> bool" where
  "looseEq x y =
     (case x of
        JStr a \<Rightarrow> (case y of JStr b \<Rightarrow> a = b | _ \<Rightarrow> False)
      | JUndefined \<Rightarrow> (case y of JUndefined \<Rightarrow> True | JNull \<Rightarrow> True | _ \<Rightarrow> False)
      | _ \<Rightarrow> False)"

text \<open>The local \<^verbatim>\<open>conditionPassed\<close> of \<^verbatim>\<open>processConnectedNodes\<close>, from the resolved operands.\<close>

definition conditionPassed :: "jsval \<Rightarrow> string \<Rightarrow> jsval \<Rightarrow> bool" where
  "conditionPassed field operator val =
     (if operator = ''equals'' then looseEq field val
      else if operator = ''greater_than''
        then numLess (parseFloat (primToString val)) (parseFloat (primToString field))
      else if operator = ''less_than''
        then numLess (parseFloat (primToString field)) (parseFloat (primToString val))
      else True)"

section \<open>Traversal engine\<close>

text \<open>
  The variables that a run mutates: the execution context, the list \<open>errors\<close>, the log
  (the React state behind \<^verbatim>\<open>setLogs\<close>) and the number of node executions so far, which
  indexes the calls to the integration router.
\<close>

record run_state =
  ctxt :: execution_context
  errors :: "string list"
  logs :: "string list"
  calls :: nat

definition outgoingEdges :: "workflow \<Rightarrow> string \<Rightarrow> edge list" where
  "outgoingEdges g nodeId = filter (\<lambda>e. source e = nodeId) (edges g)"

text \<open>The filter node \<open>n\<close> on the context \<open>c\<close>: its resolved operands and its gate.\<close>

definition filterField :: "runtime \<Rightarrow> node \<Rightarrow> execution_context \<Rightarrow> jsval" where
  "filterField rt n c = resolveVariables rt (cfg n ''field'') c"

definition filterValue :: "runtime \<Rightarrow> node \<Rightarrow> execution_context \<Rightarrow> jsval" where
  "filterValue rt n c = resolveVariables rt (cfg n ''value'') c"

definition filterPassed :: "runtime \<Rightarrow> node \<Rightarrow> execution_context \<Rightarrow> bool" where
  "filterPassed rt n c =
     conditionPassed (filterField rt n c) (primToString (cfg n ''operator'')) (filterValue rt n c)"

definition afterFilter :: "runtime \<Rightarrow> node \<Rightarrow> run_state \<Rightarrow> run_state" where
  "afterFilter rt n st =
     st\<lparr>ctxt := AList.update (nid n)
              (JObj [(''result'', JBool (filterPassed rt n (ctxt st))),
                     (''condition'', JStr (primToString (filterField rt n (ctxt st)) @ '' '' @
                        primToString (cfg n ''operator'') @ '' '' @
                        primToString (filterValue rt n (ctxt st))))])
              (ctxt st),
        logs := logs st @ [''Filter: '' @ label n @ '' evaluated to '' @
                  (if filterPassed rt n (ctxt st) then ''true'' else ''false'')]\<rparr>"

text \<open>
  An executed node: \<^verbatim>\<open>context[id] = {...executionResult.result, status}\<close> and the log line.
\<close>

definition afterExecute :: "node \<Rightarrow> exec_result \<Rightarrow> run_state \<Rightarrow> run_state" where
  "afterExecute n r st =
     st\<lparr>ctxt := AList.update (nid n)
              (JObj (AList.update ''status'' (JStr (status r)) (spread (result r))))
              (ctxt st),
        logs := logs st @ [ntype n @ '': '' @ label n @ '' - '' @ primToString (message r)],
        calls := Suc (calls st)\<rparr>"

text \<open>
  \<^verbatim>\<open>processConnectedNodes\<close> with its loop over the outgoing edges. The recursion follows the
  edges of the graph and does not end on a cycle, so the functions take fuel, the depth
  of recursion allowed, and return \<open>None\<close> when it runs out. Nothing in the \<^verbatim>\<open>try\<close> block
  of the loop throws, so its \<^verbatim>\<open>catch\<close> is not reached; the limit of the JavaScript call
  stack is not modelled.
\<close>

fun processConnectedNodes ::
    "nat \<Rightarrow> runtime \<Rightarrow> integration_manager \<Rightarrow> workflow \<Rightarrow> string \<Rightarrow> run_state \<Rightarrow> run_state option"
  and processEdges ::
    "nat \<Rightarrow> runtime \<Rightarrow> integration_manager \<Rightarrow> workflow \<Rightarrow> edge list \<Rightarrow> run_state \<Rightarrow> run_state option"
  where
  "processConnectedNodes 0 rt mgr g nodeId st = None"
| "processConnectedNodes (Suc fuel) rt mgr g nodeId st =
     processEdges fuel rt mgr g (outgoingEdges g nodeId) st"
| "processEdges fuel rt mgr g [] st = Some st"
| "processEdges fuel rt mgr g (e # es) st =
     (case find (\<lambda>n. nid n = target e) (nodes g) of
        None \<Rightarrow> processEdges fuel rt mgr g es st
      | Some targetNode \<Rightarrow>
          (case validateNode targetNode of
             Some validationError \<Rightarrow>
               processEdges fuel rt mgr g es
                 (st\<lparr>errors := errors st @
                    [''Error in '' @ label targetNode @ '': '' @ validationError]\<rparr>)
           | None \<Rightarrow>
               (if ntype targetNode = ''filter'' then
                  (if filterPassed rt targetNode (ctxt st) then
                     (case processConnectedNodes fuel rt mgr g (nid targetNode)
                             (afterFilter rt targetNode st) of
                        None \<Rightarrow> None
                      | Some st' \<Rightarrow> processEdges fuel rt mgr g es st')
                   else processEdges fuel rt mgr g es (afterFilter rt targetNode st))
                else
                  (case processConnectedNodes fuel rt mgr g (nid targetNode)
                          (afterExecute targetNode
                             (executeNode rt mgr (calls st) targetNode (ctxt st)) st) of
                     None \<Rightarrow> None
                   | Some st' \<Rightarrow> processEdges fuel rt mgr g es st'))))"

text \<open>
  The entry that \<^verbatim>\<open>simulateWorkflow\<close> writes for a trigger node and its log line. The two
  time stamps are read from the clock: \<open>now k\<close> is the text of the \<open>k\<close>-th reading.
\<close>

definition triggerData :: "string \<Rightarrow> jsval" where
  "triggerData orderDate =
     JObj [(''userId'', JStr ''user_123''),
           (''customerId'', JStr ''cust_456''),
           (''orderId'', JStr ''ord_789''),
           (''orderTotal'', JNum 14999 2),
           (''orderDate'', JStr orderDate),
           (''orderItems'', JArr [
              JObj [(''productId'', JStr ''P001''), (''name'', JStr ''Product 1''),
                    (''price'', JNum 4999 2), (''quantity'', JNum 2 0)],
              JObj [(''productId'', JStr ''P002''), (''name'', JStr ''Product 2''),
                    (''price'', JNum 2999 2), (''quantity'', JNum 1 0)],
              JObj [(''productId'', JStr ''P003''), (''name'', JStr ''Product 3''),
                    (''price'', JNum 1999 2), (''quantity'', JNum 1 0)]])]"

definition fireTrigger :: "(nat \<Rightarrow> string) \<Rightarrow> nat \<Rightarrow> node \<Rightarrow> run_state \<Rightarrow> run_state" where
  "fireTrigger now i t st =
     st\<lparr>logs := logs st @ [''Trigger: '' @ label t @ '' fired''],
        ctxt := AList.update (nid t)
              (JObj [(''timestamp'', JStr (now (2 * i))),
                     (''event'', JStr (cfgOr t ''event'' ''scheduled_event'')),
                     (''data'', triggerData (now (2 * i + 1)))])
              (ctxt st)\<rparr>"

text \<open>The loop over the trigger nodes; \<open>i\<close> counts the triggers already fired.\<close>

fun processTriggers ::
  "nat \<Rightarrow> runtime \<Rightarrow> integration_manager \<Rightarrow> (nat \<Rightarrow> string) \<Rightarrow> workflow \<Rightarrow> nat \<Rightarrow> node list \<Rightarrow>
   run_state \<Rightarrow> run_state option" where
  "processTriggers fuel rt mgr now g i [] st = Some st"
| "processTriggers fuel rt mgr now g i (t # ts) st =
     (case processConnectedNodes fuel rt mgr g (nid t) (fireTrigger now i t st) of
        None \<Rightarrow> None
      | Some st' \<Rightarrow> processTriggers fuel rt mgr now g (Suc i) ts st')"

text \<open>
  The React state that \<^verbatim>\<open>simulateWorkflow\<close> writes, and what a run leaves behind: that
  state, and the values of the locals \<^verbatim>\<open>context\<close> and \<^verbatim>\<open>errors\<close> when the function
  returns.
\<close>

record app_state =
  appLogs :: "string list"
  dataContext :: execution_context
  isSimulating :: bool

record run_outcome =
  finalApp :: app_state
  finalContext :: execution_context
  finalErrors :: "string list"

definition simulateWorkflow ::
  "nat \<Rightarrow> runtime \<Rightarrow> integration_manager \<Rightarrow> (nat \<Rightarrow> string) \<Rightarrow> workflow \<Rightarrow> app_state \<Rightarrow>
   run_outcome option" where
  "simulateWorkflow fuel rt mgr now g app =
     (let started = appLogs app @ [''Starting workflow simulation...'']
      in if nodes g = [] then
           Some \<lparr>finalApp = app\<lparr>appLogs := started @ [''Warning: No nodes to simulate''],
                                isSimulating := False\<rparr>,
                 finalContext = [], finalErrors = []\<rparr>
         else
           let triggerNodes = filter (\<lambda>n. ntype n = ''trigger'') (nodes g);
               warned = (if triggerNodes = []
                         then started @ [''Warning: Workflow should start with a trigger node'']
                         else started)
           in case processTriggers fuel rt mgr now g 0 triggerNodes
                     \<lparr>ctxt = [], errors = [], logs = warned, calls = 0\<rparr> of
                None \<Rightarrow> None
              | Some st \<Rightarrow>
                  Some \<lparr>finalApp = \<lparr>appLogs = logs st @ errors st @ [''Workflow simulation complete''],
                                    dataContext = ctxt st, isSimulating = False\<rparr>,
                        finalContext = ctxt st, finalErrors = errors st\<rparr>)"

text \<open>A manager without services, for concrete evaluation.\<close>

definition noService :: service where
  "noService = (\<lambda>operation. Value JUndefined)"

definition noServices :: integration_manager where
  "noServices =
     \<lparr>api = noService, email = noService, database = noService, fileStorage = noService,
      webhook = noService, protoService = (\<lambda>k. None)\<rparr>"

section \<open>Examples\<close>

text \<open>
  A filter node \<^verbatim>\<open>3\<close> that compares \<^verbatim>\<open>{{3.x}}\<close> with a value, reached by an edge from
  node \<^verbatim>\<open>1\<close> and followed by node \<^verbatim>\<open>4\<close>, on the context \<^verbatim>\<open>{"3": {"x": 150}}\<close>.
\<close>

definition gateFilter :: "string \<Rightarrow> string \<Rightarrow> node" where
  "gateFilter operator v =
     \<lparr>nid = ''3'', ntype = ''filter'', label = ''Gate'',
      config = [''field'' \<mapsto> ''{{3.x}}'', ''operator'' \<mapsto> operator, ''value'' \<mapsto> v]\<rparr>"

definition afterGate :: node where
  "afterGate = \<lparr>nid = ''4'', ntype = ''flowControl'', label = ''Next'', config = Map.empty\<rparr>"

definition gateGraph :: "string \<Rightarrow> string \<Rightarrow> workflow" where
  "gateGraph operator v =
     \<lparr>nodes = [gateFilter operator v, afterGate],
      edges = [\<lparr>source = ''1'', target = ''3''\<rparr>, \<lparr>source = ''3'', target = ''4''\<rparr>]\<rparr>"

definition gateState :: run_state where
  "gateState = \<lparr>ctxt = [(''3'', JObj [(''x'', JNum 150 0)])], errors = [], logs = [], calls = 0\<rparr>"

definition toGate :: edge where
  "toGate = \<lparr>source = ''1'', target = ''3''\<rparr>"








text \<open>
  A manager as the standard runtime makes it: the table of services inherits
  \<^verbatim>\<open>toString\<close> from \<^verbatim>\<open>Object.prototype\<close>, and that function has the method \<^verbatim>\<open>call\<close>, so
  that \<^verbatim>\<open>service[operation](config)\<close> is \<^verbatim>\<open>Object.prototype.toString.call(config)\<close>.
\<close>

definition objectToString :: "jsval \<Rightarrow> string" where
  "objectToString v =
     (case v of
        JUndefined \<Rightarrow> ''[object Undefined]''
      | JNull \<Rightarrow> ''[object Null]''
      | JBool b \<Rightarrow> ''[object Boolean]''
      | JNum m e \<Rightarrow> ''[object Number]''
      | JStr s \<Rightarrow> ''[object String]''
      | JArr xs \<Rightarrow> ''[object Array]''
      | JObj ps \<Rightarrow> ''[object Object]''
      | JFun src \<Rightarrow> ''[object Function]'')"

definition protoManager :: integration_manager where
  "protoManager =
     noServices\<lparr>protoService := (\<lambda>k.
        if k = ''toString''
        then Some (\<lambda>operation.
               if operation = ''call'' then Method (\<lambda>call params. Inr (JStr (objectToString params)))
               else Value JUndefined)
        else None)\<rparr>"

section \<open>The loop body, case by case\<close>

lemma processEdges_filter:
  assumes "find (\<lambda>n. nid n = target e) (nodes g) = Some n"
    and "validateNode n = None"
    and "ntype n = ''filter''"
  shows "processEdges fuel rt mgr g (e # es) st =
           (if filterPassed rt n (ctxt st)
            then (case processConnectedNodes fuel rt mgr g (nid n) (afterFilter rt n st) of
                    None \<Rightarrow> None
                  | Some st' \<Rightarrow> processEdges fuel rt mgr g es st')
            else processEdges fuel rt mgr g es (afterFilter rt n st))"
  using assms by simp






section \<open>Filter gating\<close>

text \<open>
  Claim C1. For a filter node that passes validation, the loop of
  \<^verbatim>\<open>processConnectedNodes\<close> recurses into the successors of the node exactly when
  \<open>conditionPassed\<close> is true; when it is false the loop goes on with the next edge, and
  the only entry written to the context is the filter's own. On the context
  \<^verbatim>\<open>{"3": {"x": 150}}\<close> with field \<^verbatim>\<open>{{3.x}}\<close> and operator \<^verbatim>\<open>greater_than\<close>, the value
  \<^verbatim>\<open>100\<close> opens the gate and the successor \<^verbatim>\<open>4\<close> gets its entry, the value \<^verbatim>\<open>200\<close>
  closes it and the context holds the entry of node \<^verbatim>\<open>3\<close> alone.
\<close>

theorem filter_gate:
  assumes "find (\<lambda>n. nid n = target e) (nodes g) = Some n"
    and "validateNode n = None"
    and "ntype n = ''filter''"
  shows "processEdges fuel rt mgr g (e # es) st =
           (if filterPassed rt n (ctxt st)
            then (case processConnectedNodes fuel rt mgr g (nid n) (afterFilter rt n st) of
                    None \<Rightarrow> None
                  | Some st' \<Rightarrow> processEdges fuel rt mgr g es st')
            else processEdges fuel rt mgr g es (afterFilter rt n st))
         \<and> map fst (ctxt (afterFilter rt n st)) =
             (if nid n \<in> set (map fst (ctxt st)) then map fst (ctxt st)
              else map fst (ctxt st) @ [nid n])"
proof -
  have "map fst (AList.update k v al) = (if k \<in> set (map fst al) then map fst al else map fst al @ [k])"
    for k :: string and v :: jsval and al
    by (induction al) auto
  then show ?thesis
    using processEdges_filter [OF assms] by (simp add: afterFilter_def)
qed

theorem filter_gate_witness:
  "filterPassed plainRuntime (gateFilter ''greater_than'' ''100'') (ctxt gateState)
   \<and> map_option (\<lambda>s. map fst (ctxt s))
        (processEdges 2 plainRuntime noServices (gateGraph ''greater_than'' ''100'') [toGate] gateState)
      = Some [''3'', ''4'']
   \<and> \<not> filterPassed plainRuntime (gateFilter ''greater_than'' ''200'') (ctxt gateState)
   \<and> map_option (\<lambda>s. map fst (ctxt s))
        (processEdges 2 plainRuntime noServices (gateGraph ''greater_than'' ''200'') [toGate] gateState)
      = Some [''3'']"
proof -
  have found: "find (\<lambda>n. nid n = target toGate) (nodes (gateGraph ''greater_than'' v)) = Some (gateFilter ''greater_than'' v)" for v
    by (simp add: toGate_def gateGraph_def gateFilter_def)
  have valid: "validateNode (gateFilter ''greater_than'' v) = None" if "v \<noteq> []" for v
    by (simp add: validateNode_def gateFilter_def cfgSet_def)
  have kind: "ntype (gateFilter ''greater_than'' v) = ''filter''" for v
    by (simp add: gateFilter_def)
  have p100: "filterPassed plainRuntime (gateFilter ''greater_than'' ''100'') (ctxt gateState)"
    by code_simp
  have p200: "\<not> filterPassed plainRuntime (gateFilter ''greater_than'' ''200'') (ctxt gateState)"
    by code_simp
  have r100: "map_option (\<lambda>s. map fst (ctxt s))
      (case processConnectedNodes 2 plainRuntime noServices (gateGraph ''greater_than'' ''100'') ''3''
              (afterFilter plainRuntime (gateFilter ''greater_than'' ''100'') gateState) of
         None \<Rightarrow> None
       | Some st' \<Rightarrow> processEdges 2 plainRuntime noServices (gateGraph ''greater_than'' ''100'') [] st')
      = Some [''3'', ''4'']"
    by code_simp
  have r200: "map_option (\<lambda>s. map fst (ctxt s))
      (processEdges 2 plainRuntime noServices (gateGraph ''greater_than'' ''200'') []
         (afterFilter plainRuntime (gateFilter ''greater_than'' ''200'') gateState))
      = Some [''3'']"
    by code_simp
  have id3: "nid (gateFilter ''greater_than'' v) = ''3''" for v
    by (simp add: gateFilter_def)
  from filter_gate [OF found valid kind, of "''100''" 2 plainRuntime noServices "[]" gateState]
  have e100: "processEdges 2 plainRuntime noServices (gateGraph ''greater_than'' ''100'') [toGate] gateState =
      (case processConnectedNodes 2 plainRuntime noServices (gateGraph ''greater_than'' ''100'') ''3''
              (afterFilter plainRuntime (gateFilter ''greater_than'' ''100'') gateState) of
         None \<Rightarrow> None
       | Some st' \<Rightarrow> processEdges 2 plainRuntime noServices (gateGraph ''greater_than'' ''100'') [] st')"
    using p100 by (simp add: id3)
  from filter_gate [OF found valid kind, of "''200''" 2 plainRuntime noServices "[]" gateState]
  have e200: "processEdges 2 plainRuntime noServices (gateGraph ''greater_than'' ''200'') [toGate] gateState =
      processEdges 2 plainRuntime noServices (gateGraph ''greater_than'' ''200'') []
         (afterFilter plainRuntime (gateFilter ''greater_than'' ''200'') gateState)"
    using p200 by simp
  show ?thesis
    using p100 p200 r100 r200 e100 e200 by simp
qed

section \<open>Node failures\<close>



section \<open>Unknown operators\<close>

text \<open>
  Claim C10. A filter node that passes validation and whose operator is none of
  \<^verbatim>\<open>equals\<close>, \<^verbatim>\<open>greater_than\<close> and \<^verbatim>\<open>less_than\<close> evaluates to true on every context,
  whatever its field and value, and the loop recurses into its successors.
\<close>

theorem unknown_operator_passes:
  assumes "find (\<lambda>n. nid n = target e) (nodes g) = Some n"
    and "validateNode n = None"
    and "ntype n = ''filter''"
    and "config n ''operator'' = Some operator"
    and "operator \<noteq> ''equals''"
    and "operator \<noteq> ''greater_than''"
    and "operator \<noteq> ''less_than''"
  shows "filterPassed rt n c
         \<and> processEdges fuel rt mgr g (e # es) st =
             (case processConnectedNodes fuel rt mgr g (nid n) (afterFilter rt n st) of
                None \<Rightarrow> None
              | Some st' \<Rightarrow> processEdges fuel rt mgr g es st')"
proof -
  have passed: "filterPassed rt n c'" for c'
    using assms(4-7) by (simp add: filterPassed_def conditionPassed_def cfg_def primToString_def)
  then show ?thesis
    using processEdges_filter [OF assms(1-3)] by simp
qed

theorem unknown_operator_passes_witness:
  "filterPassed plainRuntime (gateFilter ''contains'' ''200'') (ctxt gateState)
   \<and> map_option (\<lambda>s. map fst (ctxt s))
        (processEdges 2 plainRuntime noServices (gateGraph ''contains'' ''200'') [toGate] gateState)
      = Some [''3'', ''4'']"
proof -
  have found: "find (\<lambda>n. nid n = target toGate) (nodes (gateGraph ''contains'' ''200'')) =
      Some (gateFilter ''contains'' ''200'')"
    by (simp add: toGate_def gateGraph_def gateFilter_def)
  have valid: "validateNode (gateFilter ''contains'' ''200'') = None"
    by (simp add: validateNode_def gateFilter_def cfgSet_def)
  have kind: "ntype (gateFilter ''contains'' ''200'') = ''filter''"
    by (simp add: gateFilter_def)
  have operator: "config (gateFilter ''contains'' ''200'') ''operator'' = Some ''contains''"
    by (simp add: gateFilter_def)
  have rest: "map_option (\<lambda>s. map fst (ctxt s))
      (case processConnectedNodes 2 plainRuntime noServices (gateGraph ''contains'' ''200'')
              (nid (gateFilter ''contains'' ''200''))
              (afterFilter plainRuntime (gateFilter ''contains'' ''200'') gateState) of
         None \<Rightarrow> None
       | Some st' \<Rightarrow> processEdges 2 plainRuntime noServices (gateGraph ''contains'' ''200'') [] st')
      = Some [''3'', ''4'']"
    by code_simp
  show ?thesis
    using unknown_operator_passes [OF found valid kind operator, of plainRuntime "ctxt gateState" 2
        noServices "[]" gateState] rest
    by simp
qed

section \<open>Empty graphs\<close>

text \<open>
  Claim C7. On a graph without nodes a run returns at once, for any amount of fuel: the
  context of the run is empty, the log has gained the start line and the warning
  \<^verbatim>\<open>Warning: No nodes to simulate\<close>, and nothing is thrown (the result is a normal
  return). The run returns before \<^verbatim>\<open>setDataContext\<close>, so the data context on display is
  the one of the run before.
\<close>

theorem empty_graph_run:
  assumes "nodes g = []"
  shows "simulateWorkflow fuel rt mgr now g app =
           Some \<lparr>finalApp = app\<lparr>appLogs := appLogs app @
                     [''Starting workflow simulation...'', ''Warning: No nodes to simulate''],
                   isSimulating := False\<rparr>,
                 finalContext = [], finalErrors = []\<rparr>"
  using assms by (simp add: simulateWorkflow_def)

theorem empty_graph_run_witness:
  "nodes \<lparr>nodes = [], edges = []\<rparr> = []
   \<and> map_option finalContext
        (simulateWorkflow 0 plainRuntime noServices (\<lambda>k. ''2024-01-01T00:00:00.000Z'')
           \<lparr>nodes = [], edges = []\<rparr> \<lparr>appLogs = [], dataContext = [], isSimulating = False\<rparr>)
      = Some []
   \<and> map_option (\<lambda>r. appLogs (finalApp r))
        (simulateWorkflow 0 plainRuntime noServices (\<lambda>k. ''2024-01-01T00:00:00.000Z'')
           \<lparr>nodes = [], edges = []\<rparr> \<lparr>appLogs = [], dataContext = [], isSimulating = False\<rparr>)
      = Some [''Starting workflow simulation...'', ''Warning: No nodes to simulate'']"
proof -
  have empty: "nodes \<lparr>nodes = [], edges = []\<rparr> = []"
    by simp
  show ?thesis
    using empty_graph_run [OF empty, of 0 plainRuntime noServices "\<lambda>k. ''2024-01-01T00:00:00.000Z''"
        "\<lparr>appLogs = [], dataContext = [], isSimulating = False\<rparr>"]
    by simp
qed

section \<open>Properties of the resolver\<close>

subsection \<open>Scanning\<close>








subsection \<open>Unresolvable placeholders\<close>

text \<open>
  A placeholder whose node id or whose field reads as \<^verbatim>\<open>undefined\<close> is left as it is, and
  a template that is not a string is returned unchanged; the example of the
  specification, \<^verbatim>\<open>resolve("Hello {{9.name}}", {})\<close>, is unchanged.
\<close>

lemma substitute_unresolved:
  assumes "splitOn (CHR ''.'') path = nodeId # field # others"
    and "getProp rt (JObj ctx) nodeId = Some JUndefined
         \<or> (\<exists>entry. getProp rt (JObj ctx) nodeId = Some entry \<and> getProp rt entry field = Some JUndefined)"
  shows "substitute rt ctx path = placeholder path"
  using assms by (auto simp: substitute_def truthy_def)

lemma resolve_spec_example:
  "resolveVariables plainRuntime (JStr ''Hello {{9.name}}'') [] = JStr ''Hello {{9.name}}''"
  by code_simp

lemma resolve_non_string: "\<forall>s. t \<noteq> JStr s \<Longrightarrow> resolveVariables rt t ctx = t"
  by (cases t) (auto simp: resolveVariables_def)

text \<open>
  Claim C3. Each placeholder whose node id is absent from the context, or whose field
  is absent from the node's result object, is to be left unchanged. The reads
  \<^verbatim>\<open>context[nodeId]\<close> and \<^verbatim>\<open>context[nodeId][field]\<close> also find inherited properties, and the
  code does not tell them from own ones: on the empty context the placeholder
  \<^verbatim>\<open>{{constructor.name}}\<close> is replaced by \<^verbatim>\<open>Object\<close>, although no node \<^verbatim>\<open>constructor\<close> is in
  the context.
\<close>

theorem inherited_placeholder_resolves:
  "resolveVariables protoRuntime (JStr ''{{constructor.name}}'') [] = JStr ''Object''"
  by code_simp

subsection \<open>Resolving twice\<close>




section \<open>Properties of the integration router\<close>

text \<open>
  The three outcomes of \<^verbatim>\<open>execute\<close>: no service under the name, no callable member
  under the operation's name, and otherwise the result or the error of the operation
  itself, unchanged.
\<close>

lemma execute_unknown_service:
  "services mgr serviceType = None \<Longrightarrow>
   execute mgr call serviceType operation params = Inl (ServiceNotFound serviceType)"
  by (simp add: execute_def)

lemma execute_unknown_operation:
  "services mgr serviceType = Some svc \<Longrightarrow> svc operation = Value v \<Longrightarrow>
   execute mgr call serviceType operation params = Inl (OperationNotFound operation serviceType)"
  by (simp add: execute_def)

lemma execute_method:
  "services mgr serviceType = Some svc \<Longrightarrow> svc operation = Method f \<Longrightarrow>
   execute mgr call serviceType operation params = f call params"
  by (simp add: execute_def)

text \<open>
  Claim C6. \<^verbatim>\<open>execute\<close> is to reject every service name but the five registered ones.
  The lookup \<^verbatim>\<open>this.services[serviceType]\<close> also finds what the table inherits: for the
  service name \<^verbatim>\<open>toString\<close> and the operation \<^verbatim>\<open>call\<close> nothing is rejected, the call
  returns \<^verbatim>\<open>"[object Object]"\<close>.
\<close>

theorem inherited_service_executes:
  "services protoManager ''toString'' \<noteq> None
   \<and> execute protoManager 0 ''toString'' ''call'' (JObj []) = Inr (JStr ''[object Object]'')"
  by (simp add: execute_def services_def protoManager_def noServices_def objectToString_def)

section \<open>Webhook service\<close>

text \<open>
  \<^verbatim>\<open>src/integrations/webhookService.js\<close>. The registered webhooks are the values of the
  \<^verbatim>\<open>Map\<close> in insertion order. Header values are texts; a header that is not in the
  object reads as \<^verbatim>\<open>undefined\<close>. The stored token \<^verbatim>\<open>authConfig.token\<close> is any value. The
  handler is a function of the body and the headers that returns or throws.
\<close>

type_synonym headers = "string \<rightharpoonup> string"

record webhook_reg =
  whId :: string
  whPath :: string
  authType :: string
  authToken :: jsval
  handler :: "jsval \<Rightarrow> headers \<Rightarrow> js_error + jsval"

record history_entry =
  heWebhookId :: string
  hePath :: string
  heTimestamp :: string
  heHeaders :: headers
  heBody :: jsval

record webhook_service =
  registeredWebhooks :: "webhook_reg list"
  webhookHistory :: "history_entry list"

text \<open>
  The errors of \<^verbatim>\<open>processWebhook\<close>, by the statement that throws: no webhook for the path,
  the three failures of the authentication, and an error of the handler.
\<close>

datatype webhook_error =
    NotFound string
  | InvalidToken
  | MissingSignature
  | UnsupportedAuth string
  | HandlerFailed js_error

text \<open>\<^verbatim>\<open>headers[k]\<close> is falsy: the header is missing or its value is the empty string.\<close>

definition headerFalsy :: "headers \<Rightarrow> string \<Rightarrow> bool" where
  "headerFalsy h k = (case h k of None \<Rightarrow> True | Some v \<Rightarrow> v = [])"

text \<open>\<^verbatim>\<open>_validateWebhookAuth\<close>; \<open>None\<close> when it returns without throwing.\<close>

definition validateWebhookAuth :: "webhook_reg \<Rightarrow> headers \<Rightarrow> webhook_error option" where
  "validateWebhookAuth hook h =
     (if authType hook = ''token'' then
        let token = (if headerFalsy h ''x-webhook-token'' then h ''authorization''
                     else h ''x-webhook-token'')
        in (case token of
              None \<Rightarrow> Some InvalidToken
            | Some t \<Rightarrow> if t = [] \<or> JStr t \<noteq> authToken hook then Some InvalidToken else None)
      else if authType hook = ''hmac'' then
        (if headerFalsy h ''x-webhook-signature'' then Some MissingSignature else None)
      else if authType hook = ''none'' then None
      else Some (UnsupportedAuth (authType hook)))"

text \<open>
  \<^verbatim>\<open>processWebhook\<close>: the result or the error, and the service afterwards. \<open>now\<close> is the time
  stamp of the history entry.
\<close>

definition processWebhook ::
  "string \<Rightarrow> webhook_service \<Rightarrow> string \<Rightarrow> headers \<Rightarrow> jsval \<Rightarrow> (webhook_error + jsval) \<times> webhook_service" where
  "processWebhook now svc path h body =
     (case find (\<lambda>w. whPath w = path) (registeredWebhooks svc) of
        None \<Rightarrow> (Inl (NotFound path), svc)
      | Some hook \<Rightarrow>
          (case validateWebhookAuth hook h of
             Some e \<Rightarrow> (Inl e, svc)
           | None \<Rightarrow>
               let svc' = svc\<lparr>webhookHistory := webhookHistory svc @
                            [\<lparr>heWebhookId = whId hook, hePath = path, heTimestamp = now,
                              heHeaders = h, heBody = body\<rparr>]\<rparr>
               in (case handler hook body h of
                     Inl e \<Rightarrow> (Inl (HandlerFailed e), svc')
                   | Inr r \<Rightarrow>
                       (Inr (JObj [(''status'', JStr ''success''), (''webhookId'', JStr (whId hook)),
                                   (''result'', r)]), svc'))))"

text \<open>Two registered webhooks whose handler returns the body.\<close>

definition echoHandler :: "jsval \<Rightarrow> headers \<Rightarrow> js_error + jsval" where
  "echoHandler body h = Inr body"

definition signedHook :: webhook_reg where
  "signedHook = \<lparr>whId = ''webhook_1'', whPath = ''/hooks/signed'', authType = ''hmac'',
                 authToken = JUndefined, handler = echoHandler\<rparr>"

definition signedService :: webhook_service where
  "signedService = \<lparr>registeredWebhooks = [signedHook], webhookHistory = []\<rparr>"

text \<open>
  Claim C9, as stated: with \<^verbatim>\<open>hmac\<close> the authentication fails exactly when the signature
  header is absent. It also fails when the header is there with an empty value.
\<close>

theorem hmac_empty_signature_counterexample:
  "[''x-webhook-signature'' \<mapsto> ''''] ''x-webhook-signature'' \<noteq> None
   \<and> fst (processWebhook ''t0'' signedService ''/hooks/signed'' [''x-webhook-signature'' \<mapsto> ''''] JNull)
      = Inl MissingSignature"
  by (simp add: processWebhook_def signedService_def signedHook_def validateWebhookAuth_def headerFalsy_def)

text \<open>
  Claim C9, amended. \<^verbatim>\<open>processWebhook\<close> fails with the not-found error when no webhook is
  registered for the path. Otherwise the authentication goes by the stored type:
  \<^verbatim>\<open>none\<close> passes; \<^verbatim>\<open>token\<close> passes exactly when the first non-empty one of the headers
  \<^verbatim>\<open>x-webhook-token\<close> and \<^verbatim>\<open>authorization\<close> equals the stored token, and fails with the
  invalid-token error otherwise; \<^verbatim>\<open>hmac\<close> fails exactly when the signature header is
  absent or empty. A failed authentication leaves the service as it was. On success one
  history entry is appended, the handler is called with the body and the headers, and
  its result is returned in the success envelope (its error is propagated).
\<close>

theorem processWebhook_outcomes:
  "(find (\<lambda>w. whPath w = path) (registeredWebhooks svc) = None \<longrightarrow>
      processWebhook now svc path h body = (Inl (NotFound path), svc))
   \<and> (\<forall>hook. find (\<lambda>w. whPath w = path) (registeredWebhooks svc) = Some hook \<longrightarrow>
        (authType hook = ''none'' \<longrightarrow> validateWebhookAuth hook h = None)
      \<and> (authType hook = ''token'' \<longrightarrow>
           (validateWebhookAuth hook h = None \<longleftrightarrow>
              (\<exists>t. t \<noteq> [] \<and> authToken hook = JStr t \<and>
                   (if headerFalsy h ''x-webhook-token'' then h ''authorization''
                    else h ''x-webhook-token'') = Some t))
         \<and> (validateWebhookAuth hook h \<noteq> None \<longrightarrow> validateWebhookAuth hook h = Some InvalidToken))
      \<and> (authType hook = ''hmac'' \<longrightarrow>
           (validateWebhookAuth hook h = Some MissingSignature \<longleftrightarrow> headerFalsy h ''x-webhook-signature'')
         \<and> (validateWebhookAuth hook h = None \<longleftrightarrow> \<not> headerFalsy h ''x-webhook-signature''))
      \<and> (\<forall>e. validateWebhookAuth hook h = Some e \<longrightarrow>
             processWebhook now svc path h body = (Inl e, svc))
      \<and> (validateWebhookAuth hook h = None \<longrightarrow>
             snd (processWebhook now svc path h body) =
               svc\<lparr>webhookHistory := webhookHistory svc @
                     [\<lparr>heWebhookId = whId hook, hePath = path, heTimestamp = now,
                       heHeaders = h, heBody = body\<rparr>]\<rparr>
           \<and> fst (processWebhook now svc path h body) =
               (case handler hook body h of
                  Inl e \<Rightarrow> Inl (HandlerFailed e)
                | Inr r \<Rightarrow> Inr (JObj [(''status'', JStr ''success''),
                                      (''webhookId'', JStr (whId hook)), (''result'', r)]))))"
  by (auto simp: processWebhook_def validateWebhookAuth_def Let_def split: option.splits sum.splits if_splits)

text \<open>A second webhook, with a token.\<close>

definition tokenHook :: webhook_reg where
  "tokenHook = \<lparr>whId = ''webhook_2'', whPath = ''/hooks/token'', authType = ''token'',
                authToken = JStr ''s3cret'', handler = echoHandler\<rparr>"

definition tokenService :: webhook_service where
  "tokenService = \<lparr>registeredWebhooks = [signedHook, tokenHook], webhookHistory = []\<rparr>"

theorem processWebhook_outcomes_witness:
  "find (\<lambda>w. whPath w = ''/hooks/token'') (registeredWebhooks tokenService) = Some tokenHook
   \<and> validateWebhookAuth tokenHook [''authorization'' \<mapsto> ''s3cret''] = None
   \<and> fst (processWebhook ''t0'' tokenService ''/hooks/token'' [''authorization'' \<mapsto> ''s3cret''] (JStr ''ping''))
      = Inr (JObj [(''status'', JStr ''success''), (''webhookId'', JStr ''webhook_2''),
                   (''result'', JStr ''ping'')])
   \<and> map heWebhookId (webhookHistory (snd (processWebhook ''t0'' tokenService ''/hooks/token''
        [''authorization'' \<mapsto> ''s3cret''] (JStr ''ping'')))) = [''webhook_2'']
   \<and> fst (processWebhook ''t0'' tokenService ''/hooks/none'' Map.empty JNull) = Inl (NotFound ''/hooks/none'')"
proof -
  have found: "find (\<lambda>w. whPath w = ''/hooks/token'') (registeredWebhooks tokenService) = Some tokenHook"
    by (simp add: tokenService_def tokenHook_def signedHook_def)
  have missing: "find (\<lambda>w. whPath w = ''/hooks/none'') (registeredWebhooks tokenService) = None"
    by (simp add: tokenService_def tokenHook_def signedHook_def)
  have auth: "validateWebhookAuth tokenHook [''authorization'' \<mapsto> ''s3cret''] = None"
    by (simp add: validateWebhookAuth_def tokenHook_def headerFalsy_def)
  have run: "handler tokenHook (JStr ''ping'') [''authorization'' \<mapsto> ''s3cret''] = Inr (JStr ''ping'')"
    by (simp add: tokenHook_def echoHandler_def)
  have ident: "whId tokenHook = ''webhook_2''" "webhookHistory tokenService = []"
    by (simp_all add: tokenHook_def tokenService_def)
  from processWebhook_outcomes [of "''/hooks/token''" tokenService "''t0''"
      "[''authorization'' \<mapsto> ''s3cret'']" "JStr ''ping''"] found auth
  have "snd (processWebhook ''t0'' tokenService ''/hooks/token'' [''authorization'' \<mapsto> ''s3cret''] (JStr ''ping'')) =
          tokenService\<lparr>webhookHistory := webhookHistory tokenService @
             [\<lparr>heWebhookId = whId tokenHook, hePath = ''/hooks/token'', heTimestamp = ''t0'',
               heHeaders = [''authorization'' \<mapsto> ''s3cret''], heBody = JStr ''ping''\<rparr>]\<rparr>"
    and "fst (processWebhook ''t0'' tokenService ''/hooks/token'' [''authorization'' \<mapsto> ''s3cret''] (JStr ''ping'')) =
          (case handler tokenHook (JStr ''ping'') [''authorization'' \<mapsto> ''s3cret''] of
             Inl e \<Rightarrow> Inl (HandlerFailed e)
           | Inr r \<Rightarrow> Inr (JObj [(''status'', JStr ''success''),
                                 (''webhookId'', JStr (whId tokenHook)), (''result'', r)]))"
    by blast+
  moreover from processWebhook_outcomes [of "''/hooks/none''" tokenService "''t0''" Map.empty JNull] missing
  have "processWebhook ''t0'' tokenService ''/hooks/none'' Map.empty JNull = (Inl (NotFound ''/hooks/none''), tokenService)"
    by blast
  ultimately show ?thesis
    using found auth run ident by simp
qed

section \<open>Workflow validation\<close>

text \<open>
  \<^verbatim>\<open>validateWorkflow\<close> of the test utilities. An entry of \<^verbatim>\<open>nodeMap\<close> holds the targets of
  the node's outgoing edges and the two marks of the depth-first search.
\<close>

record map_entry =
  outgoing :: "string list"
  visited :: bool
  inPath :: bool

type_synonym node_map = "(string \<times> map_entry) list"

definition connectedNodeIds :: "workflow \<Rightarrow> string set" where
  "connectedNodeIds g = source ` set (edges g) \<union> target ` set (edges g)"

definition disconnectedNodes :: "workflow \<Rightarrow> node list" where
  "disconnectedNodes g =
     filter (\<lambda>n. ntype n \<noteq> ''trigger'' \<and> nid n \<notin> connectedNodeIds g) (nodes g)"

definition addNode :: "node_map \<Rightarrow> node \<Rightarrow> node_map" where
  "addNode m n = AList.update (nid n) \<lparr>outgoing = [], visited = False, inPath = False\<rparr> m"

definition addEdge :: "node_map \<Rightarrow> edge \<Rightarrow> node_map" where
  "addEdge m e =
     (case map_of m (source e) of
        None \<Rightarrow> m
      | Some entry \<Rightarrow> AList.update (source e) (entry\<lparr>outgoing := outgoing entry @ [target e]\<rparr>) m)"

definition buildNodeMap :: "workflow \<Rightarrow> node_map" where
  "buildNodeMap g = foldl addEdge (foldl addNode [] (nodes g)) (edges g)"

text \<open>
  What the search mutates: the marks in \<^verbatim>\<open>nodeMap\<close>, the list \<^verbatim>\<open>errors\<close> and the array
  \<^verbatim>\<open>path\<close>, which all calls of one search share.
\<close>

record dfs_state =
  nodeMap :: node_map
  errs :: "string list"
  path :: "string list"

definition cycleError :: "string list \<Rightarrow> string" where
  "cycleError p = ''Circular reference detected: '' @ joinWith '' -> '' p"

text \<open>
  \<^verbatim>\<open>checkCircular\<close> and its loop over the targets. The fuel bounds the depth of the
  recursion; each call below the first marks a node that was not visited, so the depth
  never exceeds the number of nodes by more than one.
\<close>

fun checkCircular :: "nat \<Rightarrow> string \<Rightarrow> dfs_state \<Rightarrow> (bool \<times> dfs_state) option"
  and checkTargets :: "nat \<Rightarrow> string list \<Rightarrow> dfs_state \<Rightarrow> (bool \<times> dfs_state) option" where
  "checkCircular 0 nodeId st = None"
| "checkCircular (Suc fuel) nodeId st =
     (case map_of (nodeMap st) nodeId of
        None \<Rightarrow> Some (False, st)
      | Some entry \<Rightarrow>
          (if inPath entry then Some (True, st\<lparr>errs := errs st @ [cycleError (path st @ [nodeId])]\<rparr>)
           else if visited entry then Some (False, st)
           else
             (case checkTargets fuel (outgoing entry)
                     (st\<lparr>nodeMap := AList.update nodeId (entry\<lparr>visited := True, inPath := True\<rparr>) (nodeMap st),
                         path := path st @ [nodeId]\<rparr>) of
                None \<Rightarrow> None
              | Some (found, st') \<Rightarrow>
                  (if found then Some (True, st')
                   else Some (False,
                          st'\<lparr>nodeMap := AList.map_entry nodeId (\<lambda>en. en\<lparr>inPath := False\<rparr>) (nodeMap st'),
                              path := butlast (path st')\<rparr>)))))"
| "checkTargets fuel [] st = Some (False, st)"
| "checkTargets fuel (targetId # targets) st =
     (case checkCircular fuel targetId st of
        None \<Rightarrow> None
      | Some (found, st') \<Rightarrow> (if found then Some (True, st') else checkTargets fuel targets st'))"

text \<open>One search from each trigger node, each with a fresh \<^verbatim>\<open>path\<close>; the result is dropped.\<close>

fun checkTriggers :: "nat \<Rightarrow> node list \<Rightarrow> dfs_state \<Rightarrow> dfs_state option" where
  "checkTriggers fuel [] st = Some st"
| "checkTriggers fuel (t # ts) st =
     (case checkCircular fuel (nid t) (st\<lparr>path := []\<rparr>) of
        None \<Rightarrow> None
      | Some (found, st') \<Rightarrow> checkTriggers fuel ts st')"

record validation =
  valid :: bool
  verrors :: "string list"

text \<open>The errors that are found before the search, in the order of the checks.\<close>

definition structuralErrors :: "workflow \<Rightarrow> string list" where
  "structuralErrors g =
     (if nodes g = [] then [''Workflow must have at least one node''] else []) @
     (if \<not> (\<exists>n \<in> set (nodes g). ntype n = ''trigger'')
      then [''Workflow must have at least one trigger node''] else []) @
     (if disconnectedNodes g \<noteq> []
      then [''Found '' @ showNat (length (disconnectedNodes g)) @ '' disconnected nodes'']
      else [])"

definition validateWorkflow :: "workflow \<Rightarrow> validation option" where
  "validateWorkflow g =
     (case checkTriggers (Suc (length (nodes g))) (filter (\<lambda>n. ntype n = ''trigger'') (nodes g))
             \<lparr>nodeMap = buildNodeMap g, errs = structuralErrors g, path = []\<rparr> of
        None \<Rightarrow> None
      | Some st \<Rightarrow> Some \<lparr>valid = (errs st = []), verrors = errs st\<rparr>)"





subsection \<open>The search always returns\<close>

text \<open>
  The nodes that are not yet marked as visited bound the depth of the search, so the fuel
  that \<open>validateWorkflow\<close> gives it, one more than the number of nodes, never runs out.
\<close>

definition unvisited :: "node_map \<Rightarrow> string set" where
  "unvisited m = {k. \<exists>en. map_of m k = Some en \<and> \<not> visited en}"

lemma unvisited_keys: "unvisited m \<subseteq> fst ` set m"
  by (auto simp: unvisited_def dest: map_of_SomeD intro: rev_image_eqI)

lemma finite_unvisited: "finite (unvisited m)"
  using unvisited_keys [of m] by (rule finite_subset) simp

lemma unvisited_mark:
  assumes "map_of m k = Some en" and "\<not> visited en"
  shows "unvisited (AList.update k (en\<lparr>visited := True, inPath := True\<rparr>) m) = unvisited m - {k}"
  using assms by (auto simp: unvisited_def update_conv')

lemma unvisited_unmark:
  "unvisited (AList.map_entry k (\<lambda>en. en\<lparr>inPath := False\<rparr>) m) = unvisited m"
  by (auto simp: unvisited_def map_of_map_entry split: option.splits if_splits)

lemma checkTargets_total:
  assumes circ: "\<And>nodeId st. card (unvisited (nodeMap st)) < fuel \<Longrightarrow>
      \<exists>b st'. checkCircular fuel nodeId st = Some (b, st') \<and> unvisited (nodeMap st') \<subseteq> unvisited (nodeMap st)"
  shows "card (unvisited (nodeMap st)) < fuel \<Longrightarrow>
      \<exists>b st'. checkTargets fuel ts st = Some (b, st') \<and> unvisited (nodeMap st') \<subseteq> unvisited (nodeMap st)"
proof (induction ts arbitrary: st)
  case Nil
  then show ?case by auto
next
  case (Cons t ts)
  from circ [OF Cons.prems, of t] obtain b st1 where
    one: "checkCircular fuel t st = Some (b, st1)" and sub1: "unvisited (nodeMap st1) \<subseteq> unvisited (nodeMap st)"
    by blast
  show ?case
  proof (cases b)
    case True
    with one sub1 show ?thesis by auto
  next
    case False
    from sub1 have "card (unvisited (nodeMap st1)) \<le> card (unvisited (nodeMap st))"
      by (simp add: card_mono finite_unvisited)
    with Cons.prems have "card (unvisited (nodeMap st1)) < fuel" by simp
    from Cons.IH [OF this] obtain b' st2 where
      "checkTargets fuel ts st1 = Some (b', st2)" and "unvisited (nodeMap st2) \<subseteq> unvisited (nodeMap st1)"
      by blast
    with one False sub1 show ?thesis by auto
  qed
qed

lemma checkCircular_total:
  "card (unvisited (nodeMap st)) < fuel \<Longrightarrow>
     \<exists>b st'. checkCircular fuel nodeId st = Some (b, st') \<and> unvisited (nodeMap st') \<subseteq> unvisited (nodeMap st)"
proof (induction fuel arbitrary: nodeId st)
  case 0
  then show ?case by simp
next
  case (Suc fuel)
  show ?case
  proof (cases "map_of (nodeMap st) nodeId")
    case None
    then show ?thesis by auto
  next
    case (Some en)
    show ?thesis
    proof (cases "inPath en \<or> visited en")
      case True
      with Some show ?thesis by auto
    next
      case False
      let ?st1 = "st\<lparr>nodeMap := AList.update nodeId (en\<lparr>visited := True, inPath := True\<rparr>) (nodeMap st),
                      path := path st @ [nodeId]\<rparr>"
      from Some False have mark: "unvisited (nodeMap ?st1) = unvisited (nodeMap st) - {nodeId}"
        by (simp add: unvisited_mark)
      from Some False have "nodeId \<in> unvisited (nodeMap st)"
        by (auto simp: unvisited_def)
      then have "card (unvisited (nodeMap st) - {nodeId}) < card (unvisited (nodeMap st))"
        by (intro card_Diff1_less finite_unvisited)
      with mark have "card (unvisited (nodeMap ?st1)) < card (unvisited (nodeMap st))"
        by simp
      with Suc.prems have less: "card (unvisited (nodeMap ?st1)) < fuel" by simp
      from checkTargets_total [of fuel ?st1 "outgoing en", OF Suc.IH less]
      obtain b st2 where loop: "checkTargets fuel (outgoing en) ?st1 = Some (b, st2)"
        and sub: "unvisited (nodeMap st2) \<subseteq> unvisited (nodeMap ?st1)"
        by blast
      from sub mark have "unvisited (nodeMap st2) \<subseteq> unvisited (nodeMap st)" by auto
      with Some False loop show ?thesis
        by (cases b) (auto simp: unvisited_unmark)
    qed
  qed
qed

lemma checkTriggers_total:
  "card (unvisited (nodeMap st)) < fuel \<Longrightarrow> \<exists>st'. checkTriggers fuel ts st = Some st'"
proof (induction ts arbitrary: st)
  case Nil
  then show ?case by simp
next
  case (Cons t ts)
  from Cons.prems have "card (unvisited (nodeMap (st\<lparr>path := []\<rparr>))) < fuel" by simp
  from checkCircular_total [OF this, of "nid t"] obtain b st1 where
    one: "checkCircular fuel (nid t) (st\<lparr>path := []\<rparr>) = Some (b, st1)"
    and sub: "unvisited (nodeMap st1) \<subseteq> unvisited (nodeMap (st\<lparr>path := []\<rparr>))"
    by blast
  from sub have "card (unvisited (nodeMap st1)) \<le> card (unvisited (nodeMap st))"
    by (simp add: card_mono finite_unvisited)
  with Cons.prems have "card (unvisited (nodeMap st1)) < fuel" by simp
  from Cons.IH [OF this] one show ?case by auto
qed

lemma addEdge_keys: "fst ` set (addEdge m e) = fst ` set m"
  by (auto simp: addEdge_def dom_update split: option.splits dest: map_of_SomeD intro: rev_image_eqI)

lemma buildNodeMap_keys: "fst ` set (buildNodeMap g) \<subseteq> nid ` set (nodes g)"
proof -
  have nodes: "fst ` set (foldl addNode m ns) = fst ` set m \<union> nid ` set ns" for m ns
    by (induction ns arbitrary: m) (auto simp: addNode_def dom_update)
  have edges: "fst ` set (foldl addEdge m es) = fst ` set m" for m es
    by (induction es arbitrary: m) (simp_all add: addEdge_keys)
  show ?thesis
    by (simp add: buildNodeMap_def edges nodes)
qed

lemma validateWorkflow_total: "\<exists>v. validateWorkflow g = Some v"
proof -
  have "card (unvisited (buildNodeMap g)) \<le> card (nid ` set (nodes g))"
    using unvisited_keys [of "buildNodeMap g"] buildNodeMap_keys [of g]
    by (intro card_mono) auto
  also have "\<dots> \<le> length (nodes g)"
    by (meson card_image_le card_length le_trans List.finite_set)
  finally have "card (unvisited (buildNodeMap g)) < Suc (length (nodes g))" by simp
  then have "card (unvisited (nodeMap \<lparr>nodeMap = buildNodeMap g, errs = structuralErrors g, path = []\<rparr>))
      < Suc (length (nodes g))"
    by simp
  from checkTriggers_total [OF this] obtain st' where
    "checkTriggers (Suc (length (nodes g))) (filter (\<lambda>n. ntype n = ''trigger'') (nodes g))
       \<lparr>nodeMap = buildNodeMap g, errs = structuralErrors g, path = []\<rparr> = Some st'"
    by blast
  then show ?thesis
    by (simp add: validateWorkflow_def)
qed

subsection \<open>Cycle errors\<close>



section \<open>The context of a run\<close>

subsection \<open>Reachability\<close>

definition edgeRel :: "workflow \<Rightarrow> (string \<times> string) set" where
  "edgeRel g = set (map (\<lambda>e. (source e, target e)) (edges g))"

definition keys :: "run_state \<Rightarrow> string set" where
  "keys st = fst ` set (ctxt st)"

text \<open>The nodes below a list of edges: their targets and what is reachable from them.\<close>

definition below :: "workflow \<Rightarrow> edge list \<Rightarrow> string set" where
  "below g es = (\<Union>e \<in> set es. {k. (target e, k) \<in> (edgeRel g)\<^sup>*})"

lemma keys_afterFilter: "keys (afterFilter rt n st) = insert (nid n) (keys st)"
  by (simp add: keys_def afterFilter_def dom_update)

lemma keys_afterExecute: "keys (afterExecute n r st) = insert (nid n) (keys st)"
  by (simp add: keys_def afterExecute_def dom_update)

lemma keys_errors [simp]: "keys (st\<lparr>errors := x\<rparr>) = keys st"
  by (simp add: keys_def)

lemma find_target: "find (\<lambda>n. nid n = k) ns = Some n \<Longrightarrow> nid n = k"
  by (auto simp: find_Some_iff)

lemma below_Cons: "below g (e # es) = {k. (target e, k) \<in> (edgeRel g)\<^sup>*} \<union> below g es"
  by (auto simp: below_def)

lemma below_outgoing:
  "below g (outgoingEdges g nodeId) \<subseteq> {k. (nodeId, k) \<in> (edgeRel g)\<^sup>+}"
proof
  fix k assume "k \<in> below g (outgoingEdges g nodeId)"
  then obtain e where "e \<in> set (edges g)" "source e = nodeId" "(target e, k) \<in> (edgeRel g)\<^sup>*"
    by (auto simp: below_def outgoingEdges_def)
  moreover from this have "(nodeId, target e) \<in> edgeRel g"
    by (auto simp: edgeRel_def)
  ultimately show "k \<in> {k. (nodeId, k) \<in> (edgeRel g)\<^sup>+}"
    by (auto intro: rtrancl_into_trancl2)
qed

lemma traversal_keys:
  "(processConnectedNodes fuel rt mgr g nodeId st = Some st' \<longrightarrow>
      keys st \<subseteq> keys st' \<and> keys st' \<subseteq> keys st \<union> below g (outgoingEdges g nodeId))"
  "(processEdges fuel rt mgr g es st = Some st' \<longrightarrow>
      keys st \<subseteq> keys st' \<and> keys st' \<subseteq> keys st \<union> below g es)"
proof (induction fuel rt mgr g nodeId st and fuel rt mgr g es st arbitrary: st' and st'
    rule: processConnectedNodes_processEdges.induct)
  case (1 rt mgr g nodeId st)
  then show ?case by simp
next
  case (2 fuel rt mgr g nodeId st)
  then show ?case by simp
next
  case (3 fuel rt mgr g st)
  then show ?case by simp
next
  case (4 fuel rt mgr g e es st)
  show ?case
  proof (cases "find (\<lambda>n. nid n = target e) (nodes g)")
    case None
    with "4.IH"(1) [OF None, of st'] show ?thesis
      by (auto simp: below_Cons)
  next
    case (Some n)
    have id: "nid n = target e" using Some by (rule find_target)
    have self: "target e \<in> {k. (target e, k) \<in> (edgeRel g)\<^sup>*}" by simp
    have sub: "below g (outgoingEdges g (target e)) \<subseteq> {k. (target e, k) \<in> (edgeRel g)\<^sup>*}"
      using below_outgoing [of g "target e"] by (auto intro: trancl_into_rtrancl)
    show ?thesis
    proof (cases "validateNode n")
      case (Some err)
      with \<open>find _ _ = Some n\<close> "4.IH"(7) [OF \<open>find _ _ = Some n\<close> Some, of st'] show ?thesis
        by (auto simp: below_Cons)
    next
      case None
      note valid = None
      show ?thesis
      proof (cases "ntype n = ''filter''")
        case True
        note filt = True
        show ?thesis
        proof (cases "filterPassed rt n (ctxt st)")
          case True
          show ?thesis
          proof
            assume run: "processEdges fuel rt mgr g (e # es) st = Some st'"
            with Some valid filt True obtain st1 where
              r1: "processConnectedNodes fuel rt mgr g (nid n) (afterFilter rt n st) = Some st1"
              and r2: "processEdges fuel rt mgr g es st1 = Some st'"
              by (auto split: option.splits)
            from "4.IH"(2) [OF Some valid filt True, of st1] r1
            have a: "keys (afterFilter rt n st) \<subseteq> keys st1"
              "keys st1 \<subseteq> keys (afterFilter rt n st) \<union> below g (outgoingEdges g (nid n))"
              by auto
            from "4.IH"(3) [OF Some valid filt True r1, of st'] r2
            have b: "keys st1 \<subseteq> keys st'" "keys st' \<subseteq> keys st1 \<union> below g es"
              by auto
            from a b sub self show "keys st \<subseteq> keys st' \<and> keys st' \<subseteq> keys st \<union> below g (e # es)"
              unfolding keys_afterFilter id below_Cons by blast
          qed
        next
          case False
          with Some valid filt "4.IH"(4) [OF Some valid filt False, of st'] self show ?thesis
            by (auto simp: below_Cons keys_afterFilter id)
        qed
      next
        case False
        show ?thesis
        proof
          assume run: "processEdges fuel rt mgr g (e # es) st = Some st'"
          let ?st0 = "afterExecute n (executeNode rt mgr (calls st) n (ctxt st)) st"
          from run Some valid False obtain st1 where
            r1: "processConnectedNodes fuel rt mgr g (nid n) ?st0 = Some st1"
            and r2: "processEdges fuel rt mgr g es st1 = Some st'"
            by (auto split: option.splits)
          from "4.IH"(5) [OF Some valid False, of st1] r1
          have a: "keys ?st0 \<subseteq> keys st1" "keys st1 \<subseteq> keys ?st0 \<union> below g (outgoingEdges g (nid n))"
            by auto
          from "4.IH"(6) [OF Some valid False r1, of st'] r2
          have b: "keys st1 \<subseteq> keys st'" "keys st' \<subseteq> keys st1 \<union> below g es"
            by auto
          from a b sub self show "keys st \<subseteq> keys st' \<and> keys st' \<subseteq> keys st \<union> below g (e # es)"
            unfolding keys_afterExecute id below_Cons by blast
        qed
      qed
    qed
  qed
qed

lemma traversal_keys_grow:
  "processConnectedNodes fuel rt mgr g nodeId st = Some st' \<Longrightarrow> keys st \<subseteq> keys st'"
  using traversal_keys(1) by blast


subsection \<open>Invariants of the traversal\<close>







subsection \<open>Acyclic graphs\<close>



subsection \<open>The run\<close>

definition triggerNodes :: "workflow \<Rightarrow> node list" where
  "triggerNodes g = filter (\<lambda>n. ntype n = ''trigger'') (nodes g)"






subsection \<open>Example graphs\<close>










subsection \<open>The final context\<close>




end
